theory Spec2Isabelle
  imports Main "HOL-Library.Word"
begin

unbundle bit_operations_syntax

section \<open>Bytes, byte arrays and the outcomes of a call\<close>

text \<open>
  A \<open>QByteArray\<close> (and its zeroing subclass \<open>SecureByteArray\<close>) is a list of bytes.
  The members of \<open>QByteArray\<close> that \<open>crypter.cpp\<close> uses are written out below, with
  what they do out of range.
\<close>

type_synonym byte = "8 word"
type_synonym QByteArray = "byte list"

text \<open>What a read of bytes of an array fetches. Qt keeps a terminating zero byte behind
  the bytes of every array. A read is \<open>Fetched v past\<close>: \<open>v\<close> is what was read, and \<open>past\<close> says
  that the read went past the end of the array and took the terminating byte. A read
  further on is \<open>Beyond\<close>: it is outside what the array owns, and nothing is known of it.\<close>

datatype 'a fetch = Fetched 'a bool | Beyond

text \<open>\<open>ba.at(i)\<close> is \<open>Q_ASSERT(uint(i) < uint(size())); return d->data()[i];\<close>, inlined into the
  caller. The read is below; the assertion is written where \<open>at\<close> is called.\<close>

definition QByteArray_at :: "QByteArray \<Rightarrow> nat \<Rightarrow> byte fetch" where
  "QByteArray_at ba i =
     (if i < length ba then Fetched (ba ! i) False
      else if i = length ba then Fetched 0 True
      else Beyond)"

text \<open>\<open>ba.remove(pos, len)\<close>: nothing happens when \<open>pos\<close> is out of range, and the array is
  truncated at \<open>pos\<close> when \<open>pos + len\<close> is past the end.\<close>

definition QByteArray_remove :: "QByteArray \<Rightarrow> nat \<Rightarrow> nat \<Rightarrow> QByteArray" where
  "QByteArray_remove ba pos len =
     (if pos < length ba then take pos ba @ drop (pos + len) ba else ba)"

text \<open>\<open>QByteArray(ba.constData(), len)\<close>: a copy of \<open>len\<close> bytes starting at the first byte
  of \<open>ba\<close>. No length is checked: with \<open>len = ba.size() + 1\<close> the copy takes the terminating
  byte along, with a larger \<open>len\<close> it reads beyond it.\<close>

definition QByteArray_from_constData :: "QByteArray \<Rightarrow> nat \<Rightarrow> QByteArray fetch" where
  "QByteArray_from_constData ba len =
     (if len \<le> length ba then Fetched (take len ba) False
      else if len = length ba + 1 then Fetched (ba @ [0]) True
      else Beyond)"

text \<open>\<open>ba.mid(pos, len)\<close>.\<close>

definition QByteArray_mid :: "QByteArray \<Rightarrow> nat \<Rightarrow> nat \<Rightarrow> QByteArray" where
  "QByteArray_mid ba pos len = take len (drop pos ba)"

text \<open>The exceptions of Crypto++ that the stream transformation can throw; \<open>crypter.cpp\<close>
  catches none of them.\<close>

datatype CryptoPP_Exception = InvalidKeyLength | InvalidArgument | InvalidDataFormat | InvalidCiphertext

text \<open>How a call ends: it returns, a Crypto++ exception leaves it, an assertion fails
  (function name and message), or it reads beyond the terminating byte of the named
  buffer, after which nothing is known of the call.\<close>

datatype 'a outcome =
    Returned 'a
  | Threw CryptoPP_Exception
  | AssertFailed string string
  | OutOfBounds string

text \<open>\<open>Q_ASSERT_X(cond, where, what)\<close> and \<open>Q_ASSERT(cond)\<close> are macros of Qt: they abort the
  process when \<open>cond\<close> is false, and expand to nothing when the program is built with
  \<open>QT_NO_DEBUG\<close> (a release build). The build is a parameter of the model.\<close>

datatype build = Debug | Release

definition Q_ASSERT_X_fails :: "build \<Rightarrow> bool \<Rightarrow> bool" where
  "Q_ASSERT_X_fails bm cond = (bm = Debug \<and> \<not> cond)"

text \<open>Modelled from the spec: \<open>crypter.h\<close> is not among the sources. \<open>crypter.cpp\<close> names the
  error code \<open>NoCryptError\<close>; the other codes are the error kinds of the specification
  (section 7).\<close>

datatype CryptError = NoCryptError | ContractViolation | FormatError | IntegrityError

text \<open>\<open>if (errCode != nullptr) *errCode = v\<close>. The parameter \<open>int *errCode\<close> is \<open>None\<close> for
  \<open>nullptr\<close> and \<open>Some c\<close> for a pointer to an \<open>int\<close> that holds \<open>c\<close>.\<close>

definition set_errCode :: "CryptError option \<Rightarrow> CryptError \<Rightarrow> CryptError option" where
  "set_errCode errCode v = (case errCode of None \<Rightarrow> None | Some _ \<Rightarrow> Some v)"

section \<open>The libraries below \<open>crypter.cpp\<close>\<close>

datatype BlockPaddingScheme = NO_PADDING | PKCS_PADDING

datatype Algorithm = Sha256 | Sha384

text \<open>
  The third-party code that \<open>crypter.cpp\<close> calls is a parameter of the model:
  \<^item> \<open>cbc_encryption key IV plain padding\<close>: a \<open>StreamTransformationFilter\<close> of Crypto++ over
    \<open>CBC_Mode<AES>::Encryption\<close> after \<open>SetKeyWithIV\<close>, the string sink's content or the
    exception thrown; \<open>cbc_decryption\<close> likewise for \<open>CBC_Mode<AES>::Decryption\<close>;
  \<^item> \<open>pbkdf2_hmac algorithm password salt iterations\<close>: the bytes that \<open>PBKDF2::generate\<close> derives;
  \<^item> \<open>qCompress data level\<close> and \<open>qUncompress data\<close> of Qt; \<open>qUncompress\<close> is \<open>None\<close> when the
    input is corrupt (Qt then warns and returns an empty array);
  \<^item> \<open>gRandomDevice\<close>: the process-wide random device of \<open>global.h\<close>, with its state \<open>'r\<close>.
\<close>

record 'r library =
  cbc_encryption :: "QByteArray \<Rightarrow> QByteArray \<Rightarrow> QByteArray \<Rightarrow> BlockPaddingScheme \<Rightarrow> CryptoPP_Exception + QByteArray"
  cbc_decryption :: "QByteArray \<Rightarrow> QByteArray \<Rightarrow> QByteArray \<Rightarrow> BlockPaddingScheme \<Rightarrow> CryptoPP_Exception + QByteArray"
  pbkdf2_hmac :: "Algorithm \<Rightarrow> QByteArray \<Rightarrow> QByteArray \<Rightarrow> nat \<Rightarrow> QByteArray"
  qCompress :: "QByteArray \<Rightarrow> int \<Rightarrow> QByteArray"
  qUncompress :: "QByteArray \<Rightarrow> QByteArray option"
  gRandomDevice :: "'r \<Rightarrow> 32 word \<times> 'r"

text \<open>Modelled from the spec: the class \<open>PBKDF2\<close> (\<open>pbkdf2.h\<close>) is not among the sources.
  Following section 4.1, an object holds a salt and an iteration count, \<open>generate\<close> derives
  the bytes from a secret with the chosen hash, and \<open>derivedKey\<close> hands out the first
  \<open>len\<close> of them, or all of them when called without a size.\<close>

record PBKDF2 =
  pbkdf2_salt :: QByteArray
  pbkdf2_iterations :: nat
  pbkdf2_hash :: QByteArray

definition PBKDF2_new :: PBKDF2 where
  "PBKDF2_new = \<lparr>pbkdf2_salt = [], pbkdf2_iterations = 0, pbkdf2_hash = []\<rparr>"

definition setSalt :: "QByteArray \<Rightarrow> PBKDF2 \<Rightarrow> PBKDF2" where
  "setSalt s p = p\<lparr>pbkdf2_salt := s\<rparr>"

definition setIterations :: "nat \<Rightarrow> PBKDF2 \<Rightarrow> PBKDF2" where
  "setIterations n p = p\<lparr>pbkdf2_iterations := n\<rparr>"

definition generate :: "'r library \<Rightarrow> QByteArray \<Rightarrow> Algorithm \<Rightarrow> PBKDF2 \<Rightarrow> PBKDF2" where
  "generate lib pwd algorithm p =
     p\<lparr>pbkdf2_hash := pbkdf2_hmac lib algorithm pwd (pbkdf2_salt p) (pbkdf2_iterations p)\<rparr>"

definition derivedKey :: "PBKDF2 \<Rightarrow> nat option \<Rightarrow> QByteArray" where
  "derivedKey p len =
     (case len of None \<Rightarrow> pbkdf2_hash p | Some n \<Rightarrow> QByteArray_mid (pbkdf2_hash p) 0 n)"

text \<open>Modelled from the spec: the length of a digest, which is the length of what one
  key derivation yields (48 bytes for SHA-384, 32 bytes for SHA-256; section 4.1).\<close>

fun digest_size :: "Algorithm \<Rightarrow> nat" where
  "digest_size Sha256 = 32"
| "digest_size Sha384 = 48"

section \<open>\<open>crypter.cpp\<close>\<close>

definition SaltSize :: nat where "SaltSize = 32"
definition AESKeySize :: nat where "AESKeySize = 256 div 8"
definition DomainIterations :: nat where "DomainIterations = 32768"
definition KGKIterations :: nat where "KGKIterations = 1024"
definition KGKSize :: nat where "KGKSize = 64"

text \<open>\<open>CryptoPP::AES::BLOCKSIZE\<close>.\<close>

definition AESBlockSize :: nat where "AESBlockSize = 16"
definition EEKSize :: nat where "EEKSize = SaltSize + AESBlockSize + KGKSize"

text \<open>The one member of the enumeration \<open>FormatFlags\<close> (\<open>crypter.h\<close>); its value is given in
  the comment above \<open>Crypter::encode\<close>.\<close>

definition AES256EncryptedMasterkeyFormat :: byte where
  "AES256EncryptedMasterkeyFormat = 0x01"

definition encrypt :: "'r library \<Rightarrow> QByteArray \<Rightarrow> QByteArray \<Rightarrow> QByteArray \<Rightarrow> BlockPaddingScheme \<Rightarrow> CryptoPP_Exception + QByteArray" where
  "encrypt lib key IV baPlain padding = cbc_encryption lib key IV baPlain padding"

definition decrypt :: "'r library \<Rightarrow> QByteArray \<Rightarrow> QByteArray \<Rightarrow> QByteArray \<Rightarrow> BlockPaddingScheme \<Rightarrow> CryptoPP_Exception + QByteArray" where
  "decrypt lib key IV baCipher padding = cbc_decryption lib key IV baCipher padding"

text \<open>\<open>randomBytes\<close>: a buffer of \<open>len\<close> zero bytes, overwritten index by index with the
  device's values cast to \<open>char\<close>.\<close>

definition randomBytes :: "'r library \<Rightarrow> nat \<Rightarrow> 'r \<Rightarrow> QByteArray \<times> 'r" where
  "randomBytes lib len r =
     foldl (\<lambda>(buf, r) i. case gRandomDevice lib r of (v, r') \<Rightarrow> (buf[i := ucast v], r'))
       (replicate len 0, r) [0..<len]"

definition makeKeyFromPassword :: "'r library \<Rightarrow> QByteArray \<Rightarrow> QByteArray \<Rightarrow> QByteArray" where
  "makeKeyFromPassword lib masterPassword salt =
     (let cryptPassword = PBKDF2_new;
          cryptPassword = setSalt salt cryptPassword;
          cryptPassword = setIterations KGKIterations cryptPassword;
          cryptPassword = generate lib masterPassword Sha256 cryptPassword
      in derivedKey cryptPassword (Some AESKeySize))"

definition makeKeyAndIVFromPassword :: "'r library \<Rightarrow> QByteArray \<Rightarrow> QByteArray \<Rightarrow> QByteArray \<times> QByteArray" where
  "makeKeyAndIVFromPassword lib masterPassword salt =
     (let cryptPassword = PBKDF2_new;
          cryptPassword = setIterations DomainIterations cryptPassword;
          cryptPassword = setSalt salt cryptPassword;
          cryptPassword = generate lib masterPassword Sha384 cryptPassword;
          hash = derivedKey cryptPassword None
      in (QByteArray_mid hash 0 AESKeySize, QByteArray_mid hash AESKeySize AESBlockSize))"

text \<open>\<open>Crypter::encode\<close>. The result is the outcome, \<open>*errCode\<close> after the call and the state
  of the random device after the call. \<open>errMsg\<close> is never touched and is left out.\<close>

definition encode :: "'r library \<Rightarrow> build \<Rightarrow> QByteArray \<Rightarrow> QByteArray \<Rightarrow> QByteArray \<Rightarrow> QByteArray \<Rightarrow> QByteArray \<Rightarrow> bool \<Rightarrow> CryptError option \<Rightarrow> 'r \<Rightarrow> QByteArray outcome \<times> CryptError option \<times> 'r" where
  "encode lib bm key IV salt KGK data compress errCode r =
     (if Q_ASSERT_X_fails bm (length KGK = KGKSize)
      then (AssertFailed ''Crypter::encode()'' ''KGK.size() must be KGKSize'', errCode, r)
      else
        let errCode = set_errCode errCode NoCryptError;
            KGK2 = [];
            (salt2, r) = randomBytes lib SaltSize r;
            KGK2 = KGK2 @ salt2;
            (IV2, r) = randomBytes lib AESBlockSize r;
            KGK2 = KGK2 @ IV2;
            KGK2 = KGK2 @ KGK
        in
        if Q_ASSERT_X_fails bm (length KGK2 = EEKSize)
        then (AssertFailed ''Crypter::encode()'' ''KGK2.size()  must equal EEKSize'', errCode, r)
        else
          (case encrypt lib key IV KGK2 NO_PADDING of
            Inl e \<Rightarrow> (Threw e, errCode, r)
          | Inr EEK \<Rightarrow>
              if Q_ASSERT_X_fails bm (length EEK = EEKSize)
              then (AssertFailed ''Crypter::encode()'' ''EEK.size() must equal EEKSize'', errCode, r)
              else
                let blobKey = makeKeyFromPassword lib KGK salt2 in
                if Q_ASSERT_X_fails bm (length blobKey = AESKeySize)
                then (AssertFailed ''Crypter::encode()'' ''blobKey.size() must equal AESKeySize'', errCode, r)
                else
                  let baPlain = (if compress then qCompress lib data 9 else data) in
                  (case encrypt lib blobKey IV2 baPlain PKCS_PADDING of
                    Inl e \<Rightarrow> (Threw e, errCode, r)
                  | Inr baCipher \<Rightarrow>
                      let result = [];
                          result = result @ [AES256EncryptedMasterkeyFormat];
                          result = result @ salt;
                          result = result @ EEK;
                          result = result @ baCipher
                      in (Returned result, errCode, r))))"

text \<open>\<open>Crypter::decode\<close>. The result is the outcome, the output parameter \<open>KGK\<close> after the
  call and \<open>*errCode\<close> after the call. The argument \<open>KGK\<close> is what the caller's buffer holds
  at entry. The second half of the function, from the decryption of the EEK on, is
  \<open>decode_inner\<close>.\<close>

definition decode_inner :: "'r library \<Rightarrow> build \<Rightarrow> QByteArray \<Rightarrow> QByteArray \<Rightarrow> QByteArray \<Rightarrow> QByteArray \<Rightarrow> bool \<Rightarrow> QByteArray \<Rightarrow> CryptError option \<Rightarrow> QByteArray outcome \<times> QByteArray \<times> CryptError option" where
  "decode_inner lib bm key IV EEK baCipher uncompress KGK errCode =
     (case decrypt lib key IV EEK NO_PADDING of
        Inl e \<Rightarrow> (Threw e, KGK, errCode)
      | Inr baKGK \<Rightarrow>
          if Q_ASSERT_X_fails bm (length baKGK = EEKSize)
          then (AssertFailed ''Crypter::decode()'' ''baKGK.size() must equal EEKSize'', KGK, errCode)
          else
            (case QByteArray_from_constData baKGK SaltSize of
               Beyond \<Rightarrow> (OutOfBounds ''baKGK'', KGK, errCode)
             | Fetched salt2 _ \<Rightarrow>
                 let baKGK = QByteArray_remove baKGK 0 SaltSize in
                 (case QByteArray_from_constData baKGK AESBlockSize of
                    Beyond \<Rightarrow> (OutOfBounds ''baKGK'', KGK, errCode)
                  | Fetched IV2 _ \<Rightarrow>
                      let baKGK = QByteArray_remove baKGK 0 AESBlockSize in
                      (case QByteArray_from_constData baKGK KGKSize of
                         Beyond \<Rightarrow> (OutOfBounds ''baKGK'', KGK, errCode)
                       | Fetched KGK _ \<Rightarrow>
                           let blobKey = makeKeyFromPassword lib KGK salt2 in
                           (case decrypt lib blobKey IV2 baCipher PKCS_PADDING of
                              Inl e \<Rightarrow> (Threw e, KGK, errCode)
                            | Inr plain \<Rightarrow>
                                (Returned
                                   (if uncompress
                                    then (case qUncompress lib plain of None \<Rightarrow> [] | Some d \<Rightarrow> d)
                                    else plain),
                                 KGK, errCode))))))"

text \<open>The first half, which reads the input. Next to the result of the call it says
  whether one of the three reads of \<open>baCipher\<close> (the format flag, the salt, the EEK) went
  past the end of the array.\<close>

definition decode_reads :: "'r library \<Rightarrow> build \<Rightarrow> QByteArray \<Rightarrow> QByteArray \<Rightarrow> bool \<Rightarrow> QByteArray \<Rightarrow> CryptError option \<Rightarrow> (QByteArray outcome \<times> QByteArray \<times> CryptError option) \<times> bool" where
  "decode_reads lib bm masterPassword baCipher uncompress KGK errCode =
     (let errCode = set_errCode errCode NoCryptError in
      if Q_ASSERT_X_fails bm (0 < length baCipher)
      then ((AssertFailed ''QByteArray::at()'' ''uint(i) < uint(size())'', KGK, errCode), False)
      else
        (case QByteArray_at baCipher 0 of
           Beyond \<Rightarrow> ((OutOfBounds ''baCipher'', KGK, errCode), True)
         | Fetched formatFlag past0 \<Rightarrow>
             if Q_ASSERT_X_fails bm (formatFlag = AES256EncryptedMasterkeyFormat)
             then ((AssertFailed ''Crypter::decode()'' ''formatFlag must equal AES256EncryptedMasterkeyFormat'', KGK, errCode), past0)
             else
               let baCipher = QByteArray_remove baCipher 0 1 in
               (case QByteArray_from_constData baCipher SaltSize of
                  Beyond \<Rightarrow> ((OutOfBounds ''baCipher'', KGK, errCode), True)
                | Fetched salt past1 \<Rightarrow>
                    let baCipher = QByteArray_remove baCipher 0 SaltSize in
                    (case QByteArray_from_constData baCipher EEKSize of
                       Beyond \<Rightarrow> ((OutOfBounds ''baCipher'', KGK, errCode), True)
                     | Fetched EEK past2 \<Rightarrow>
                         if Q_ASSERT_X_fails bm (length EEK = EEKSize)
                         then ((AssertFailed ''Crypter::decode()'' ''EEK.size() must equal EEKSize'', KGK, errCode),
                               past0 \<or> past1 \<or> past2)
                         else
                           let baCipher = QByteArray_remove baCipher 0 EEKSize;
                               (key, IV) = makeKeyAndIVFromPassword lib masterPassword salt
                           in (decode_inner lib bm key IV EEK baCipher uncompress KGK errCode,
                               past0 \<or> past1 \<or> past2)))))"

definition decode :: "'r library \<Rightarrow> build \<Rightarrow> QByteArray \<Rightarrow> QByteArray \<Rightarrow> bool \<Rightarrow> QByteArray \<Rightarrow> CryptError option \<Rightarrow> QByteArray outcome \<times> QByteArray \<times> CryptError option" where
  "decode lib bm masterPassword baCipher uncompress KGK errCode =
     fst (decode_reads lib bm masterPassword baCipher uncompress KGK errCode)"

section \<open>What the callers may expect of the libraries\<close>

text \<open>The properties of the libraries that the theorems below name as hypotheses, each
  one on its own. Key derivation yields as many bytes as the digest has.\<close>

definition kdf_lengths :: "'r library \<Rightarrow> bool" where
  "kdf_lengths lib =
     (\<forall>algorithm pwd s n. length (pbkdf2_hmac lib algorithm pwd s n) = digest_size algorithm)"

text \<open>Without padding the cipher keeps the length, in both directions; with PKCS padding
  the ciphertext fills the next whole number of 16-byte blocks.\<close>

definition cipher_lengths :: "'r library \<Rightarrow> bool" where
  "cipher_lengths lib =
     (\<forall>key IV x y.
        (cbc_encryption lib key IV x NO_PADDING = Inr y \<longrightarrow> length y = length x) \<and>
        (cbc_decryption lib key IV x NO_PADDING = Inr y \<longrightarrow> length y = length x) \<and>
        (cbc_encryption lib key IV x PKCS_PADDING = Inr y \<longrightarrow> length y = 16 * (length x div 16 + 1)))"

text \<open>With a 32-byte key and a 16-byte IV, encryption throws nothing: with PKCS padding on
  any input, without padding on whole blocks.\<close>

definition cipher_accepts :: "'r library \<Rightarrow> bool" where
  "cipher_accepts lib =
     (\<forall>key IV x. length key = 32 \<and> length IV = 16 \<longrightarrow>
        (\<exists>y. cbc_encryption lib key IV x PKCS_PADDING = Inr y) \<and>
        (length x mod 16 = 0 \<longrightarrow> (\<exists>y. cbc_encryption lib key IV x NO_PADDING = Inr y)))"

text \<open>Decryption under the same key, IV and padding scheme gives the plaintext back.\<close>

definition cipher_inverts :: "'r library \<Rightarrow> bool" where
  "cipher_inverts lib =
     (\<forall>key IV x y padding. length key = 32 \<and> length IV = 16 \<and>
        cbc_encryption lib key IV x padding = Inr y \<longrightarrow>
        cbc_decryption lib key IV y padding = Inr x)"

definition compression_inverts :: "'r library \<Rightarrow> bool" where
  "compression_inverts lib = (\<forall>d. qUncompress lib (qCompress lib d 9) = Some d)"

section \<open>A reference block cipher transform\<close>

text \<open>Modelled from the spec: the block cipher transform of section 4.2 (CBC mode over a
  block cipher with 16-byte blocks, no padding or PKCS padding), over any block cipher
  \<open>E\<close>, \<open>D\<close>. It shows that the hypotheses above can be met, and it runs the concrete
  scenarios of this file.\<close>

definition xor_block :: "QByteArray \<Rightarrow> QByteArray \<Rightarrow> QByteArray" where
  "xor_block a b = map2 (XOR) a b"

fun cbc_encrypt_blocks :: "(QByteArray \<Rightarrow> QByteArray) \<Rightarrow> QByteArray \<Rightarrow> QByteArray \<Rightarrow> QByteArray" where
  "cbc_encrypt_blocks E prev p =
     (if p = [] then []
      else let c = E (xor_block (take 16 p) prev) in c @ cbc_encrypt_blocks E c (drop 16 p))"

fun cbc_decrypt_blocks :: "(QByteArray \<Rightarrow> QByteArray) \<Rightarrow> QByteArray \<Rightarrow> QByteArray \<Rightarrow> QByteArray" where
  "cbc_decrypt_blocks D prev c =
     (if c = [] then []
      else xor_block (D (take 16 c)) prev @ cbc_decrypt_blocks D (take 16 c) (drop 16 c))"

definition pkcs_pad :: "QByteArray \<Rightarrow> QByteArray" where
  "pkcs_pad p = (let n = 16 - length p mod 16 in p @ replicate n (of_nat n))"

definition pkcs_unpad :: "QByteArray \<Rightarrow> QByteArray option" where
  "pkcs_unpad p =
     (if p = [] then None
      else let n = unat (last p) in
        if n < 1 \<or> 16 < n \<or> length p < n \<or> drop (length p - n) p \<noteq> replicate n (last p)
        then None else Some (take (length p - n) p))"

definition ref_cbc_encryption :: "(QByteArray \<Rightarrow> QByteArray \<Rightarrow> QByteArray) \<Rightarrow> QByteArray \<Rightarrow> QByteArray \<Rightarrow> QByteArray \<Rightarrow> BlockPaddingScheme \<Rightarrow> CryptoPP_Exception + QByteArray" where
  "ref_cbc_encryption E key IV plain padding =
     (if length key \<notin> {16, 24, 32} then Inl InvalidKeyLength
      else if length IV \<noteq> 16 then Inl InvalidArgument
      else (case padding of
        NO_PADDING \<Rightarrow>
          if length plain mod 16 \<noteq> 0 then Inl InvalidDataFormat
          else Inr (cbc_encrypt_blocks (E key) IV plain)
      | PKCS_PADDING \<Rightarrow> Inr (cbc_encrypt_blocks (E key) IV (pkcs_pad plain))))"

definition ref_cbc_decryption :: "(QByteArray \<Rightarrow> QByteArray \<Rightarrow> QByteArray) \<Rightarrow> QByteArray \<Rightarrow> QByteArray \<Rightarrow> QByteArray \<Rightarrow> BlockPaddingScheme \<Rightarrow> CryptoPP_Exception + QByteArray" where
  "ref_cbc_decryption D key IV cipher padding =
     (if length key \<notin> {16, 24, 32} then Inl InvalidKeyLength
      else if length IV \<noteq> 16 then Inl InvalidArgument
      else if length cipher mod 16 \<noteq> 0 then Inl InvalidCiphertext
      else (case padding of
        NO_PADDING \<Rightarrow> Inr (cbc_decrypt_blocks (D key) IV cipher)
      | PKCS_PADDING \<Rightarrow>
          (case pkcs_unpad (cbc_decrypt_blocks (D key) IV cipher) of
             None \<Rightarrow> Inl InvalidCiphertext
           | Some p \<Rightarrow> Inr p)))"

section \<open>A small library for concrete runs\<close>

text \<open>A stand-in for the real libraries, small enough to run inside the logic: the
  reference transform over a block cipher that adds the sum of the key bytes to every
  byte, a key derivation that repeats one byte computed from its arguments, a compression
  that prepends the byte 0x78, and a random device that counts.\<close>

definition test_block_encrypt :: "QByteArray \<Rightarrow> QByteArray \<Rightarrow> QByteArray" where
  "test_block_encrypt key block = map (\<lambda>b. b + sum_list key) block"

definition test_block_decrypt :: "QByteArray \<Rightarrow> QByteArray \<Rightarrow> QByteArray" where
  "test_block_decrypt key block = map (\<lambda>b. b - sum_list key) block"

definition test_pbkdf2 :: "Algorithm \<Rightarrow> QByteArray \<Rightarrow> QByteArray \<Rightarrow> nat \<Rightarrow> QByteArray" where
  "test_pbkdf2 algorithm pwd s n =
     replicate (digest_size algorithm) (sum_list pwd + sum_list s + of_nat n)"

definition test_qCompress :: "QByteArray \<Rightarrow> int \<Rightarrow> QByteArray" where
  "test_qCompress d level = 0x78 # d"

fun test_qUncompress :: "QByteArray \<Rightarrow> QByteArray option" where
  "test_qUncompress [] = None"
| "test_qUncompress (b # d) = (if b = 0x78 then Some d else None)"

definition test_library :: "32 word library" where
  "test_library =
     \<lparr>cbc_encryption = ref_cbc_encryption test_block_encrypt,
      cbc_decryption = ref_cbc_decryption test_block_decrypt,
      pbkdf2_hmac = test_pbkdf2,
      qCompress = test_qCompress,
      qUncompress = test_qUncompress,
      gRandomDevice = (\<lambda>r. (r, r + 1))\<rparr>"

text \<open>The concrete scenario of the specification (section 8): the master password
  \<open>correct horse\<close>, the wrong password \<open>wrong horse\<close>, an outer salt of 32 zero bytes, a KGK
  of 64 bytes 0x01 and the payload \<open>hello vault\<close>, as bytes.\<close>

definition correct_horse :: QByteArray where
  "correct_horse = [99, 111, 114, 114, 101, 99, 116, 32, 104, 111, 114, 115, 101]"

definition wrong_horse :: QByteArray where
  "wrong_horse = [119, 114, 111, 110, 103, 32, 104, 111, 114, 115, 101]"

definition hello_vault :: QByteArray where
  "hello_vault = [104, 101, 108, 108, 111, 32, 118, 97, 117, 108, 116]"

definition zero_salt :: QByteArray where
  "zero_salt = replicate 32 0"

definition ones_KGK :: QByteArray where
  "ones_KGK = replicate 64 1"

text \<open>The envelope that \<open>encode\<close> produces in this scenario with the small library, the
  random device starting at 7: its EEK, its encrypted payload, and the whole.\<close>

definition vault_EEK :: QByteArray where
  "vault_EEK =
     [148, 155, 154, 153, 152, 159, 158, 157, 156, 131, 130, 129, 128, 135, 134, 133,
      227, 227, 227, 227, 227, 227, 227, 227, 227, 3, 3, 3, 3, 3, 3, 3, 36, 43, 42, 41,
      40, 47, 46, 45, 44, 147, 146, 145, 144, 151, 150, 149, 133, 138, 139, 136, 137,
      142, 143, 140, 141, 242, 243, 240, 241, 246, 247, 244, 228, 235, 234, 233, 232,
      239, 238, 237, 236, 83, 82, 81, 80, 87, 86, 85, 69, 74, 75, 72, 73, 78, 79, 76,
      77, 178, 179, 176, 177, 182, 183, 180, 164, 171, 170, 169, 168, 175, 174, 173,
      172, 19, 18, 17, 16, 23, 22, 21]"

definition vault_cipher_payload :: QByteArray where
  "vault_cipher_payload =
     [79, 77, 69, 70, 68, 12, 91, 79, 90, 92, 69, 55, 54, 49, 48, 51]"

definition vault_envelope :: QByteArray where
  "vault_envelope = [0x01] @ zero_salt @ vault_EEK @ vault_cipher_payload"

text \<open>The inner block of that envelope before encryption: Salt2 (the device's values 7 to
  38), IV2 (39 to 54) and the KGK.\<close>

definition vault_salt2 :: QByteArray where
  "vault_salt2 = map of_nat [7..<39]"

definition vault_IV2 :: QByteArray where
  "vault_IV2 = map of_nat [39..<55]"


text \<open>What the decryption of the envelope's EEK yields under the key and IV derived from
  \<open>wrong horse\<close>: the last 64 bytes, which \<open>decode\<close> takes for the KGK, and the whole.\<close>

definition garbled_KGK :: QByteArray where
  "garbled_KGK =
     replicate 9 225 @ replicate 16 161 @ replicate 16 97 @ replicate 16 161 @ replicate 7 225"

definition garbled_inner_block :: QByteArray where
  "garbled_inner_block =
     [186, 181, 180, 183, 182, 177, 176, 179, 178, 173, 172, 175, 174, 169, 168, 171] @
     map of_nat [183..<199] @ map of_nat [135..<144] @ map of_nat [208..<215] @ garbled_KGK"

text \<open>What \<open>encode\<close> returns in a release build for a KGK of 48 bytes 0x01, everything else
  as in the scenario: the EEK has 96 bytes, the first 96 of \<open>vault_EEK\<close>.\<close>

definition short_KGK_envelope :: QByteArray where
  "short_KGK_envelope = [0x01] @ zero_salt @ take 96 vault_EEK @ vault_cipher_payload"

section \<open>Basic facts about the functions of \<open>crypter.cpp\<close>\<close>

lemma EEKSize_eq: "EEKSize = 112"
  by (simp add: EEKSize_def SaltSize_def AESBlockSize_def KGKSize_def)

lemma Q_ASSERT_X_holds: "\<not> Q_ASSERT_X_fails bm True"
  by (simp add: Q_ASSERT_X_fails_def)

lemma randomBytes_loop_length:
  "length (fst (foldl (\<lambda>(buf, r) i. case g r of (v, r') \<Rightarrow> (buf[i := f v], r')) (buf0, r0) js)) = length buf0"
  by (induction js arbitrary: buf0 r0) (auto split: prod.splits)

lemma randomBytes_length: "length (fst (randomBytes lib n r)) = n"
  unfolding randomBytes_def by (simp add: randomBytes_loop_length)

lemma makeKeyAndIVFromPassword_eq:
  "makeKeyAndIVFromPassword lib M s =
     (take 32 (pbkdf2_hmac lib Sha384 M s 32768), take 16 (drop 32 (pbkdf2_hmac lib Sha384 M s 32768)))"
  by (simp add: makeKeyAndIVFromPassword_def PBKDF2_new_def setSalt_def setIterations_def
      generate_def derivedKey_def DomainIterations_def QByteArray_mid_def AESKeySize_def
      AESBlockSize_def Let_def)

lemma makeKeyFromPassword_eq:
  "makeKeyFromPassword lib K s = take 32 (pbkdf2_hmac lib Sha256 K s 1024)"
  by (simp add: makeKeyFromPassword_def PBKDF2_new_def setSalt_def setIterations_def
      generate_def derivedKey_def KGKIterations_def QByteArray_mid_def AESKeySize_def)

lemma makeKeyAndIVFromPassword_lengths:
  assumes "kdf_lengths lib" and "makeKeyAndIVFromPassword lib M s = (key, IV)"
  shows "length key = 32" and "length IV = 16"
  using assms by (auto simp: makeKeyAndIVFromPassword_eq kdf_lengths_def)

lemma makeKeyFromPassword_length:
  "kdf_lengths lib \<Longrightarrow> length (makeKeyFromPassword lib K s) = 32"
  by (simp add: makeKeyFromPassword_eq kdf_lengths_def)


lemma decode_reads_long:
  assumes "145 \<le> length env" and "\<not> Q_ASSERT_X_fails bm (hd env = AES256EncryptedMasterkeyFormat)"
  shows "decode_reads lib bm M env u K ec =
    (case makeKeyAndIVFromPassword lib M (take 32 (drop 1 env)) of
       (key, IV) \<Rightarrow> (decode_inner lib bm key IV (take 112 (drop 33 env)) (drop 145 env) u K
                      (set_errCode ec NoCryptError), False))"
proof -
  from assms(1) obtain b rest where env: "env = b # rest" by (cases env) auto
  with assms(1) have len: "144 \<le> length rest" by simp
  from assms(2) env have flag: "\<not> Q_ASSERT_X_fails bm (b = AES256EncryptedMasterkeyFormat)" by simp
  from len have rest: "rest \<noteq> []" by auto
  show ?thesis
    using len flag rest
    by (auto simp add: env decode_reads_def QByteArray_at_def QByteArray_remove_def
        QByteArray_from_constData_def SaltSize_def EEKSize_eq Let_def Q_ASSERT_X_fails_def)
qed

lemma decode_long:
  assumes "145 \<le> length env" and "\<not> Q_ASSERT_X_fails bm (hd env = AES256EncryptedMasterkeyFormat)"
  shows "decode lib bm M env u K ec =
    (case makeKeyAndIVFromPassword lib M (take 32 (drop 1 env)) of
       (key, IV) \<Rightarrow> decode_inner lib bm key IV (take 112 (drop 33 env)) (drop 145 env) u K
                      (set_errCode ec NoCryptError))"
  by (simp add: decode_def decode_reads_long [OF assms] split: prod.splits)

lemma decode_inner_sized:
  assumes "decrypt lib key IV EEK NO_PADDING = Inr baKGK" and "length baKGK = 112"
  shows "decode_inner lib bm key IV EEK payload u K ec =
    (case decrypt lib (makeKeyFromPassword lib (drop 48 baKGK) (take 32 baKGK))
            (take 16 (drop 32 baKGK)) payload PKCS_PADDING of
       Inl e \<Rightarrow> (Threw e, drop 48 baKGK, ec)
     | Inr plain \<Rightarrow>
         (Returned (if u then (case qUncompress lib plain of None \<Rightarrow> [] | Some d \<Rightarrow> d) else plain),
          drop 48 baKGK, ec))"
  using assms
  by (simp add: decode_inner_def QByteArray_remove_def QByteArray_from_constData_def
        SaltSize_def EEKSize_eq AESBlockSize_def KGKSize_def Q_ASSERT_X_fails_def Let_def)

lemma encode_returns:
  assumes "length KGK = 64"
    and "randomBytes lib SaltSize r = (salt2, r1)"
    and "randomBytes lib AESBlockSize r1 = (IV2, r2)"
    and "encrypt lib key IV (salt2 @ IV2 @ KGK) NO_PADDING = Inr EEK"
    and "length EEK = 112"
    and "length (makeKeyFromPassword lib KGK salt2) = 32"
    and "encrypt lib (makeKeyFromPassword lib KGK salt2) IV2
           (if compress then qCompress lib P 9 else P) PKCS_PADDING = Inr baCipher"
  shows "encode lib bm key IV salt KGK P compress ec r =
           (Returned (AES256EncryptedMasterkeyFormat # salt @ EEK @ baCipher),
            set_errCode ec NoCryptError, r2)"
proof -
  have "length salt2 = 32" "length IV2 = 16"
    using randomBytes_length [of lib SaltSize r] randomBytes_length [of lib AESBlockSize r1] assms(2,3)
    by (simp_all add: SaltSize_def AESBlockSize_def)
  then show ?thesis
    using assms
    by (simp add: encode_def Q_ASSERT_X_fails_def KGKSize_def EEKSize_eq AESKeySize_def Let_def)
qed

lemma encode_Returned_D:
  assumes "encode lib bm key IV salt KGK P compress ec r = (Returned env, ec', r')"
    and "randomBytes lib SaltSize r = (salt2, r1)"
    and "randomBytes lib AESBlockSize r1 = (IV2, r2)"
  shows "\<exists>EEK baCipher.
           encrypt lib key IV (salt2 @ IV2 @ KGK) NO_PADDING = Inr EEK \<and>
           encrypt lib (makeKeyFromPassword lib KGK salt2) IV2
             (if compress then qCompress lib P 9 else P) PKCS_PADDING = Inr baCipher \<and>
           env = AES256EncryptedMasterkeyFormat # salt @ EEK @ baCipher \<and>
           ec' = set_errCode ec NoCryptError \<and> r' = r2"
  using assms
  by (auto simp add: encode_def Let_def split: if_splits sum.splits)

lemma cipher_accepts_nopad:
  "cipher_accepts lib \<Longrightarrow> length key = 32 \<Longrightarrow> length IV = 16 \<Longrightarrow> length x mod 16 = 0 \<Longrightarrow>
     \<exists>y. encrypt lib key IV x NO_PADDING = Inr y"
  by (simp add: cipher_accepts_def encrypt_def)

lemma cipher_accepts_pkcs:
  "cipher_accepts lib \<Longrightarrow> length key = 32 \<Longrightarrow> length IV = 16 \<Longrightarrow>
     \<exists>y. encrypt lib key IV x PKCS_PADDING = Inr y"
  by (simp add: cipher_accepts_def encrypt_def)

lemma cipher_lengths_encrypt_nopad:
  "cipher_lengths lib \<Longrightarrow> encrypt lib key IV x NO_PADDING = Inr y \<Longrightarrow> length y = length x"
  by (simp add: cipher_lengths_def encrypt_def)

lemma cipher_lengths_decrypt_nopad:
  "cipher_lengths lib \<Longrightarrow> decrypt lib key IV x NO_PADDING = Inr y \<Longrightarrow> length y = length x"
  by (simp add: cipher_lengths_def decrypt_def)

lemma cipher_lengths_encrypt_pkcs:
  "cipher_lengths lib \<Longrightarrow> encrypt lib key IV x PKCS_PADDING = Inr y \<Longrightarrow>
     length y = 16 * (length x div 16 + 1)"
  by (simp add: cipher_lengths_def encrypt_def)

lemma cipher_inverts_decrypt:
  "cipher_inverts lib \<Longrightarrow> length key = 32 \<Longrightarrow> length IV = 16 \<Longrightarrow>
     encrypt lib key IV x padding = Inr y \<Longrightarrow> decrypt lib key IV y padding = Inr x"
  unfolding cipher_inverts_def encrypt_def decrypt_def by blast

lemma decode_inner_errCode: "snd (snd (decode_inner lib bm key IV EEK c u K ec)) = ec"
  by (simp add: decode_inner_def Let_def split: sum.splits fetch.splits)

lemma decode_errCode: "snd (snd (decode lib bm M env u K ec)) = set_errCode ec NoCryptError"
  by (simp add: decode_def decode_reads_def Let_def decode_inner_errCode split: fetch.splits prod.splits)

lemma encode_errCode:
  "fst (snd (encode lib bm key IV salt KGK P compress ec r)) =
     (if Q_ASSERT_X_fails bm (length KGK = KGKSize) then ec else set_errCode ec NoCryptError)"
  by (simp add: encode_def Let_def split: sum.splits prod.splits)

lemma decode_inner_not_baCipher:
  "fst (decode_inner lib bm key IV EEK c u K ec) \<noteq> OutOfBounds ''baCipher''"
  by (simp add: decode_inner_def Let_def split: sum.splits fetch.splits)


lemma decode_reads_short:
  assumes "length env < 145" and "\<not> Q_ASSERT_X_fails bm (0 < length env)"
    and "\<not> Q_ASSERT_X_fails bm (hd env = AES256EncryptedMasterkeyFormat)"
  shows "snd (decode_reads lib bm M env u K ec)"
    and "length env < 144 \<Longrightarrow>
           fst (decode_reads lib bm M env u K ec) = (OutOfBounds ''baCipher'', K, set_errCode ec NoCryptError)"
proof -
  show "snd (decode_reads lib bm M env u K ec)"
  proof (cases env)
    case Nil
    with assms show ?thesis
      by (simp add: decode_reads_def QByteArray_at_def Q_ASSERT_X_fails_def QByteArray_remove_def
          QByteArray_from_constData_def SaltSize_def Let_def)
  next
    case (Cons b rest)
    with assms have "length rest < 144" and "\<not> Q_ASSERT_X_fails bm (b = AES256EncryptedMasterkeyFormat)"
      by simp_all
    then show ?thesis
      by (auto simp add: Cons decode_reads_def QByteArray_at_def QByteArray_remove_def
          QByteArray_from_constData_def SaltSize_def EEKSize_eq Let_def Q_ASSERT_X_fails_def
          split: prod.splits)
  qed
  assume short: "length env < 144"
  show "fst (decode_reads lib bm M env u K ec) = (OutOfBounds ''baCipher'', K, set_errCode ec NoCryptError)"
  proof (cases env)
    case Nil
    with assms show ?thesis
      by (simp add: decode_reads_def QByteArray_at_def Q_ASSERT_X_fails_def QByteArray_remove_def
          QByteArray_from_constData_def SaltSize_def Let_def)
  next
    case (Cons b rest)
    with assms short have "length rest < 143" and "\<not> Q_ASSERT_X_fails bm (b = AES256EncryptedMasterkeyFormat)"
      by simp_all
    then show ?thesis
      by (auto simp add: Cons decode_reads_def QByteArray_at_def QByteArray_remove_def
          QByteArray_from_constData_def SaltSize_def EEKSize_eq Let_def Q_ASSERT_X_fails_def
          split: prod.splits)
  qed
qed

lemma decode_144:
  assumes "length env = 144" and "\<not> Q_ASSERT_X_fails bm (hd env = AES256EncryptedMasterkeyFormat)"
  shows "decode lib bm M env u K ec = decode lib bm M (env @ [0]) u K ec"
proof -
  from assms(1) obtain b rest where env: "env = b # rest" by (cases env) auto
  with assms(1) have len: "length rest = 143" by simp
  from assms(2) env have flag: "\<not> Q_ASSERT_X_fails bm (b = AES256EncryptedMasterkeyFormat)" by simp
  show ?thesis
    using len flag
    by (auto simp add: env decode_def decode_reads_def QByteArray_at_def QByteArray_remove_def
        QByteArray_from_constData_def SaltSize_def EEKSize_eq Let_def Q_ASSERT_X_fails_def
        split: prod.splits)
qed

lemma decode_reads_format_assert:
  assumes "b \<noteq> AES256EncryptedMasterkeyFormat"
  shows "decode_reads lib Debug M (b # rest) u K ec =
           ((AssertFailed ''Crypter::decode()'' ''formatFlag must equal AES256EncryptedMasterkeyFormat'',
             K, set_errCode ec NoCryptError), False)"
  using assms by (simp add: decode_reads_def QByteArray_at_def Q_ASSERT_X_fails_def)

lemma decode_format_assert:
  assumes "b \<noteq> AES256EncryptedMasterkeyFormat"
  shows "decode lib Debug M (b # rest) u K ec =
           (AssertFailed ''Crypter::decode()'' ''formatFlag must equal AES256EncryptedMasterkeyFormat'',
            K, set_errCode ec NoCryptError)"
  by (simp add: decode_def decode_reads_format_assert [OF assms])

lemma decode_release_ignores_format:
  "decode lib Release M (b # rest) u K ec = decode lib Release M (b' # rest) u K ec"
  by (simp add: decode_def decode_reads_def QByteArray_at_def Q_ASSERT_X_fails_def
      QByteArray_remove_def Let_def)


section \<open>The reference transform meets the expectations\<close>

lemma xor_block_length: "length (xor_block a b) = min (length a) (length b)"
  by (simp add: xor_block_def)

lemma xor_block_cancel: "length a = length b \<Longrightarrow> xor_block (xor_block a b) b = a"
  unfolding xor_block_def
  by (induction a b rule: list_induct2) (simp_all add: xor.assoc)

declare cbc_encrypt_blocks.simps [simp del] cbc_decrypt_blocks.simps [simp del]

lemma whole_blocks:
  assumes "length (p :: 'a list) mod 16 = 0" and "p \<noteq> []"
  shows "16 \<le> length p" and "length (drop 16 p) mod 16 = 0"
proof -
  show ge: "16 \<le> length p" using assms by (cases "length p < 16") auto
  then show "length (drop 16 p) mod 16 = 0"
    using assms(1) by (simp add: le_mod_geq [symmetric])
qed

lemma cbc_encrypt_blocks_length:
  "(\<forall>b. length (E b) = length b) \<Longrightarrow> length prev = 16 \<Longrightarrow> length p mod 16 = 0 \<Longrightarrow>
     length (cbc_encrypt_blocks E prev p) = length p"
proof (induction E prev p rule: cbc_encrypt_blocks.induct)
  case (1 E prev p)
  show ?case
  proof (cases "p = []")
    case True
    then show ?thesis by (simp add: cbc_encrypt_blocks.simps)
  next
    case False
    note wb = whole_blocks [OF "1.prems"(3) False]
    have c: "length (E (xor_block (take 16 p) prev)) = 16"
      using wb(1) "1.prems" by (simp add: xor_block_length)
    have "length (cbc_encrypt_blocks E (E (xor_block (take 16 p) prev)) (drop 16 p)) = length (drop 16 p)"
      using "1.IH" [OF False refl "1.prems"(1) c wb(2)] .
    then show ?thesis
      using False wb(1) c by (subst cbc_encrypt_blocks.simps) (simp add: Let_def)
  qed
qed

lemma cbc_decrypt_blocks_length:
  "(\<forall>b. length (D b) = length b) \<Longrightarrow> length prev = 16 \<Longrightarrow> length c mod 16 = 0 \<Longrightarrow>
     length (cbc_decrypt_blocks D prev c) = length c"
proof (induction D prev c rule: cbc_decrypt_blocks.induct)
  case (1 D prev c)
  show ?case
  proof (cases "c = []")
    case True
    then show ?thesis by (simp add: cbc_decrypt_blocks.simps)
  next
    case False
    note wb = whole_blocks [OF "1.prems"(3) False]
    have "length (cbc_decrypt_blocks D (take 16 c) (drop 16 c)) = length (drop 16 c)"
      using "1.IH" [OF False "1.prems"(1) _ wb(2)] wb(1) by simp
    then show ?thesis
      using False wb(1) "1.prems" by (subst cbc_decrypt_blocks.simps) (simp add: xor_block_length)
  qed
qed

lemma cbc_decrypt_encrypt_blocks:
  "(\<forall>b. length (E b) = length b) \<Longrightarrow> (\<forall>b. D (E b) = b) \<Longrightarrow> length prev = 16 \<Longrightarrow>
     length p mod 16 = 0 \<Longrightarrow> cbc_decrypt_blocks D prev (cbc_encrypt_blocks E prev p) = p"
proof (induction E prev p rule: cbc_encrypt_blocks.induct)
  case (1 E prev p)
  show ?case
  proof (cases "p = []")
    case True
    then show ?thesis by (simp add: cbc_encrypt_blocks.simps cbc_decrypt_blocks.simps)
  next
    case False
    note wb = whole_blocks [OF "1.prems"(4) False]
    define c where "c = E (xor_block (take 16 p) prev)"
    have lc: "length c = 16"
      using wb(1) "1.prems" by (simp add: c_def xor_block_length)
    have IH: "cbc_decrypt_blocks D c (cbc_encrypt_blocks E c (drop 16 p)) = drop 16 p"
      using "1.IH" [OF False refl "1.prems"(1,2) lc [unfolded c_def] wb(2)] by (simp add: c_def)
    have enc: "cbc_encrypt_blocks E prev p = c @ cbc_encrypt_blocks E c (drop 16 p)"
      using False by (subst cbc_encrypt_blocks.simps) (simp add: Let_def c_def)
    have first: "xor_block (D c) prev = take 16 p"
      using wb(1) "1.prems" by (simp add: c_def xor_block_cancel)
    have "cbc_decrypt_blocks D prev (c @ cbc_encrypt_blocks E c (drop 16 p)) =
            xor_block (D c) prev @ cbc_decrypt_blocks D c (cbc_encrypt_blocks E c (drop 16 p))"
      using lc by (subst cbc_decrypt_blocks.simps) auto
    then show ?thesis
      by (simp add: enc first IH)
  qed
qed

lemma pkcs_pad_length: "length (pkcs_pad p) = 16 * (length p div 16 + 1)"
proof -
  have "n + (16 - n mod 16) = 16 * (n div 16 + 1)" for n :: nat
    by presburger
  then have "length p + (16 - length p mod 16) = 16 * (length p div 16 + 1)" .
  then show ?thesis by (simp add: pkcs_pad_def Let_def)
qed

lemma pkcs_unpad_pad: "pkcs_unpad (pkcs_pad p) = Some p"
proof -
  define n where "n = 16 - length p mod 16"
  have n: "1 \<le> n" "n \<le> 16" by (simp_all add: n_def)
  then have un: "unat (of_nat n :: byte) = n" by (simp add: unat_of_nat)
  have pad: "pkcs_pad p = p @ replicate n (of_nat n)" by (simp add: pkcs_pad_def n_def Let_def)
  have la: "last (p @ replicate n (of_nat n :: byte)) = of_nat n" using n by (cases n) auto
  show ?thesis
    using n by (simp add: pad pkcs_unpad_def la un Let_def)
qed

lemma ref_cipher_lengths:
  assumes "\<And>k b. length (E k b) = length b" and "\<And>k b. length (D k b) = length b"
    and "cbc_encryption lib = ref_cbc_encryption E" and "cbc_decryption lib = ref_cbc_decryption D"
  shows "cipher_lengths lib"
  unfolding cipher_lengths_def
proof (intro allI conjI impI)
  fix key IV x y
  assume "cbc_encryption lib key IV x NO_PADDING = Inr y"
  then show "length y = length x"
    using cbc_encrypt_blocks_length [of "E key" IV x] assms(1,3)
    by (auto simp add: ref_cbc_encryption_def split: if_splits)
next
  fix key IV x y
  assume "cbc_decryption lib key IV x NO_PADDING = Inr y"
  then show "length y = length x"
    using cbc_decrypt_blocks_length [of "D key" IV x] assms(2,4)
    by (auto simp add: ref_cbc_decryption_def split: if_splits)
next
  fix key IV x y
  assume "cbc_encryption lib key IV x PKCS_PADDING = Inr y"
  then show "length y = 16 * (length x div 16 + 1)"
    using cbc_encrypt_blocks_length [of "E key" IV "pkcs_pad x"] assms(1,3)
    by (auto simp add: ref_cbc_encryption_def pkcs_pad_length split: if_splits)
qed

lemma ref_cipher_accepts:
  assumes "cbc_encryption lib = ref_cbc_encryption E"
  shows "cipher_accepts lib"
  unfolding cipher_accepts_def by (simp add: assms ref_cbc_encryption_def)

lemma ref_cipher_inverts:
  assumes "\<And>k b. length (E k b) = length b" and "\<And>k b. D k (E k b) = b"
    and "cbc_encryption lib = ref_cbc_encryption E" and "cbc_decryption lib = ref_cbc_decryption D"
  shows "cipher_inverts lib"
  unfolding cipher_inverts_def
proof (intro allI impI)
  fix key IV x y padding
  assume a: "length key = 32 \<and> length IV = 16 \<and> cbc_encryption lib key IV x padding = Inr y"
  show "cbc_decryption lib key IV y padding = Inr x"
  proof (cases padding)
    case NO_PADDING
    with a have x: "length x mod 16 = 0" and y: "y = cbc_encrypt_blocks (E key) IV x"
      by (auto simp add: assms(3) ref_cbc_encryption_def split: if_splits)
    have "length y = length x"
      using cbc_encrypt_blocks_length [of "E key" IV x] a x assms(1) by (simp add: y)
    moreover have "cbc_decrypt_blocks (D key) IV y = x"
      using cbc_decrypt_encrypt_blocks [of "E key" "D key" IV x] a x assms(1,2) by (simp add: y)
    ultimately show ?thesis
      using a x by (simp add: NO_PADDING assms(4) ref_cbc_decryption_def)
  next
    case PKCS_PADDING
    have x: "length (pkcs_pad x) mod 16 = 0" by (simp add: pkcs_pad_length)
    from a PKCS_PADDING have y: "y = cbc_encrypt_blocks (E key) IV (pkcs_pad x)"
      by (auto simp add: assms(3) ref_cbc_encryption_def split: if_splits)
    have "length y = length (pkcs_pad x)"
      using cbc_encrypt_blocks_length [of "E key" IV "pkcs_pad x"] a x assms(1) by (simp add: y)
    moreover have "cbc_decrypt_blocks (D key) IV y = pkcs_pad x"
      using cbc_decrypt_encrypt_blocks [of "E key" "D key" IV "pkcs_pad x"] a x assms(1,2)
      by (simp add: y)
    ultimately show ?thesis
      using a x by (simp add: PKCS_PADDING assms(4) ref_cbc_decryption_def pkcs_unpad_pad)
  qed
qed

section \<open>The small library meets the expectations\<close>

lemma test_library_kdf_lengths: "kdf_lengths test_library"
  by (simp add: kdf_lengths_def test_library_def test_pbkdf2_def)

lemma test_library_cipher_lengths: "cipher_lengths test_library"
  by (rule ref_cipher_lengths [of test_block_encrypt test_block_decrypt])
    (simp_all add: test_library_def test_block_encrypt_def test_block_decrypt_def)

lemma test_library_cipher_accepts: "cipher_accepts test_library"
  by (rule ref_cipher_accepts [of _ test_block_encrypt]) (simp add: test_library_def)

lemma test_library_cipher_inverts: "cipher_inverts test_library"
  by (rule ref_cipher_inverts [of test_block_encrypt test_block_decrypt])
    (simp_all add: test_library_def test_block_encrypt_def test_block_decrypt_def comp_def)

lemma test_library_compression_inverts: "compression_inverts test_library"
  by (simp add: compression_inverts_def test_library_def test_qCompress_def)

lemma test_keys:
  "makeKeyAndIVFromPassword test_library correct_horse zero_salt = (replicate 32 51, replicate 16 51)"
  by code_simp

lemma test_encode:
  "encode test_library Release (replicate 32 51) (replicate 16 51) zero_salt ones_KGK hello_vault
     False (Some IntegrityError) 7 = (Returned vault_envelope, Some NoCryptError, 55)"
  by code_simp

lemma test_lengths:
  "length ones_KGK = 64" "length zero_salt = 32" "145 \<le> length vault_envelope"
  "hd vault_envelope = AES256EncryptedMasterkeyFormat"
  by (simp_all add: ones_KGK_def zero_salt_def vault_envelope_def vault_EEK_def
      AES256EncryptedMasterkeyFormat_def)

lemma test_randomBytes:
  "randomBytes test_library SaltSize 7 = (vault_salt2, 39)"
  "randomBytes test_library AESBlockSize 39 = (vault_IV2, 55)"
  by code_simp+

lemma test_wrong_keys:
  "makeKeyAndIVFromPassword test_library wrong_horse (take 32 (drop 1 vault_envelope)) =
     (replicate 32 110, replicate 16 110)"
  by code_simp

lemma test_wrong_inner:
  "decrypt test_library (replicate 32 110) (replicate 16 110) (take 112 (drop 33 vault_envelope))
     NO_PADDING = Inr garbled_inner_block"
  by code_simp

lemma test_decode_144:
  "decode test_library Debug correct_horse (take 144 vault_envelope) False [] None =
     (Threw InvalidCiphertext, replicate 63 1 @ [20], None)"
  by code_simp



section \<open>The claims of the specification\<close>

subsection \<open>C1: round trip\<close>

text \<open>
  Claim C1. Let the libraries meet the expectations above, let the KGK have 64 bytes and
  the outer salt 32 bytes, and let \<open>key\<close> and \<open>IV\<close> be derived from the master password
  \<open>M\<close> and the salt. Then for every payload \<open>P\<close> (the empty one included) and either value
  of the compression flag, \<open>encode\<close> returns an envelope, and \<open>decode\<close> with \<open>M\<close> and the
  same flag returns exactly \<open>P\<close> from it and writes exactly the KGK into its output
  parameter. This holds in every build, for every state of the random device and
  whatever the caller's buffers held before.
\<close>

theorem decode_encode_round_trip:
  assumes kdf: "kdf_lengths lib" and len: "cipher_lengths lib" and acc: "cipher_accepts lib"
    and inv: "cipher_inverts lib" and comp: "compression_inverts lib"
    and KGK: "length KGK = 64" and salt: "length salt = 32"
    and keyIV: "makeKeyAndIVFromPassword lib M salt = (key, IV)"
  shows "\<exists>env r'. encode lib bm key IV salt KGK P compress ec r =
                      (Returned env, set_errCode ec NoCryptError, r') \<and>
                   decode lib bm' M env compress KGK0 ec0 =
                      (Returned P, KGK, set_errCode ec0 NoCryptError)"
proof -
  obtain salt2 r1 where s2: "randomBytes lib SaltSize r = (salt2, r1)" by (cases "randomBytes lib SaltSize r")
  obtain IV2 r2 where i2: "randomBytes lib AESBlockSize r1 = (IV2, r2)" by (cases "randomBytes lib AESBlockSize r1")
  have ls2: "length salt2 = 32" and li2: "length IV2 = 16"
    using randomBytes_length [of lib SaltSize r] randomBytes_length [of lib AESBlockSize r1] s2 i2
    by (simp_all add: SaltSize_def AESBlockSize_def)
  have lk: "length key = 32" and li: "length IV = 16"
    using makeKeyAndIVFromPassword_lengths [OF kdf keyIV] by simp_all
  define inner where "inner = salt2 @ IV2 @ KGK"
  have linner: "length inner = 112" by (simp add: inner_def ls2 li2 KGK)
  then have blocks: "length inner mod 16 = 0" by simp
  obtain EEK where EEK: "encrypt lib key IV inner NO_PADDING = Inr EEK"
    using cipher_accepts_nopad [OF acc lk li blocks] by auto
  have lEEK: "length EEK = 112"
    using cipher_lengths_encrypt_nopad [OF len EEK] linner by simp
  define blobKey where "blobKey = makeKeyFromPassword lib KGK salt2"
  have lb: "length blobKey = 32" by (simp add: blobKey_def makeKeyFromPassword_length [OF kdf])
  define plain where "plain = (if compress then qCompress lib P 9 else P)"
  obtain baCipher where bc: "encrypt lib blobKey IV2 plain PKCS_PADDING = Inr baCipher"
    using cipher_accepts_pkcs [OF acc lb li2] by auto
  define env where "env = AES256EncryptedMasterkeyFormat # salt @ EEK @ baCipher"
  have enc: "encode lib bm key IV salt KGK P compress ec r = (Returned env, set_errCode ec NoCryptError, r2)"
    unfolding env_def
    using encode_returns [OF KGK s2 i2 EEK [unfolded inner_def] lEEK lb [unfolded blobKey_def] bc [unfolded blobKey_def plain_def]] .
  have d1: "decrypt lib key IV EEK NO_PADDING = Inr inner"
    using cipher_inverts_decrypt [OF inv lk li EEK] .
  have d2: "decrypt lib blobKey IV2 baCipher PKCS_PADDING = Inr plain"
    using cipher_inverts_decrypt [OF inv lb li2 bc] .
  have parts: "take 32 inner = salt2" "take 16 (drop 32 inner) = IV2" "drop 48 inner = KGK"
    by (simp_all add: inner_def ls2 li2)
  have un: "(if compress then (case qUncompress lib plain of None \<Rightarrow> [] | Some d \<Rightarrow> d) else plain) = P"
    using comp by (simp add: plain_def compression_inverts_def)
  have inn: "decode_inner lib bm' key IV EEK baCipher compress KGK0 (set_errCode ec0 NoCryptError) =
               (Returned P, KGK, set_errCode ec0 NoCryptError)"
    using d2 un by (simp add: decode_inner_sized [OF d1 linner] parts blobKey_def [symmetric])
  have l145: "145 \<le> length env" by (simp add: env_def salt lEEK)
  have hd1: "\<not> Q_ASSERT_X_fails bm' (hd env = AES256EncryptedMasterkeyFormat)"
    by (simp add: env_def Q_ASSERT_X_fails_def)
  have fields: "take 32 (drop 1 env) = salt" "take 112 (drop 33 env) = EEK" "drop 145 env = baCipher"
    by (simp_all add: env_def salt lEEK)
  have "decode lib bm' M env compress KGK0 ec0 = (Returned P, KGK, set_errCode ec0 NoCryptError)"
    unfolding decode_long [OF l145 hd1] fields keyIV by (simp add: inn)
  with enc show ?thesis by blast
qed

text \<open>The scenario of the specification, run with the small library.\<close>

theorem decode_encode_round_trip_witness:
  "encode test_library Release (replicate 32 51) (replicate 16 51) zero_salt ones_KGK hello_vault
     False (Some IntegrityError) 7 = (Returned vault_envelope, Some NoCryptError, 55) \<and>
   decode test_library Debug correct_horse vault_envelope False [] (Some FormatError) =
     (Returned hello_vault, ones_KGK, Some NoCryptError)"
proof -
  obtain env r' where
    e: "encode test_library Release (replicate 32 51) (replicate 16 51) zero_salt ones_KGK hello_vault
          False (Some IntegrityError) 7 = (Returned env, set_errCode (Some IntegrityError) NoCryptError, r')"
    and d: "decode test_library Debug correct_horse env False [] (Some FormatError) =
          (Returned hello_vault, ones_KGK, set_errCode (Some FormatError) NoCryptError)"
    using decode_encode_round_trip [OF test_library_kdf_lengths test_library_cipher_lengths
        test_library_cipher_accepts test_library_cipher_inverts test_library_compression_inverts
        test_lengths(1,2) test_keys, of Release hello_vault False "Some IntegrityError" 7 Debug "[]" "Some FormatError"]
    by blast
  from e test_encode have "env = vault_envelope" and "r' = 55" by simp_all
  with e d show ?thesis by (simp add: set_errCode_def)
qed

subsection \<open>C4: layout and length of the envelope\<close>

text \<open>
  Claim C4, as the code has it. \<open>encode\<close> never checks the length of the outer salt, and
  it checks the length of the KGK by an assertion only. For a call with a salt of 32
  bytes and a KGK of 64 bytes, and a cipher that keeps lengths as expected: with \<open>salt2\<close>
  and \<open>IV2\<close> the bytes drawn from the random device, the inner block
  \<open>salt2 @ IV2 @ KGK\<close> has 32 + 16 + 64 = 112 bytes, and every envelope that \<open>encode\<close> returns
  is the byte 0x01, the salt, the EEK (the encryption of the inner block without
  padding, 112 bytes as well) and the PKCS-padded ciphertext of the (optionally
  compressed) payload: 145 bytes plus that ciphertext, whose length is the payload's
  rounded up to the next whole block. With a key of 32 bytes, an IV of 16 bytes and a
  library that accepts them, \<open>encode\<close> does return such an envelope.
\<close>

theorem envelope_layout:
  assumes "cipher_lengths lib" and "length salt = 32" and "length KGK = 64"
    and "randomBytes lib SaltSize r = (salt2, r1)"
    and "randomBytes lib AESBlockSize r1 = (IV2, r2)"
  shows "(\<forall>env ec' r'.
            encode lib bm key IV salt KGK P compress ec r = (Returned env, ec', r') \<longrightarrow>
            (\<exists>EEK baCipher.
               length salt2 = 32 \<and> length IV2 = 16 \<and> length (salt2 @ IV2 @ KGK) = 112 \<and>
               encrypt lib key IV (salt2 @ IV2 @ KGK) NO_PADDING = Inr EEK \<and> length EEK = 112 \<and>
               encrypt lib (makeKeyFromPassword lib KGK salt2) IV2
                 (if compress then qCompress lib P 9 else P) PKCS_PADDING = Inr baCipher \<and>
               length baCipher = 16 * (length (if compress then qCompress lib P 9 else P) div 16 + 1) \<and>
               env = [0x01] @ salt @ EEK @ baCipher \<and>
               length env = 145 + length baCipher)) \<and>
         (cipher_accepts lib \<and> kdf_lengths lib \<and> length key = 32 \<and> length IV = 16 \<longrightarrow>
            (\<exists>env. encode lib bm key IV salt KGK P compress ec r =
                     (Returned env, set_errCode ec NoCryptError, r2)))"
proof (intro conjI allI impI)
  have ls2: "length salt2 = 32" and li2: "length IV2 = 16"
    using randomBytes_length [of lib SaltSize r] randomBytes_length [of lib AESBlockSize r1] assms(4,5)
    by (simp_all add: SaltSize_def AESBlockSize_def)
  {
    fix env ec' r'
    assume ret: "encode lib bm key IV salt KGK P compress ec r = (Returned env, ec', r')"
    from encode_Returned_D [OF ret assms(4,5)] obtain EEK baCipher where
      EEK: "encrypt lib key IV (salt2 @ IV2 @ KGK) NO_PADDING = Inr EEK"
      and bc: "encrypt lib (makeKeyFromPassword lib KGK salt2) IV2
                 (if compress then qCompress lib P 9 else P) PKCS_PADDING = Inr baCipher"
      and env: "env = AES256EncryptedMasterkeyFormat # salt @ EEK @ baCipher"
      by blast
    have lEEK: "length EEK = 112"
      using cipher_lengths_encrypt_nopad [OF assms(1) EEK] ls2 li2 assms(3) by simp
    have lbc: "length baCipher = 16 * (length (if compress then qCompress lib P 9 else P) div 16 + 1)"
      using cipher_lengths_encrypt_pkcs [OF assms(1) bc] .
    have "env = [0x01] @ salt @ EEK @ baCipher"
      by (simp add: env AES256EncryptedMasterkeyFormat_def)
    moreover have "length env = 145 + length baCipher"
      by (simp add: env assms(2) lEEK)
    ultimately show "\<exists>EEK baCipher.
               length salt2 = 32 \<and> length IV2 = 16 \<and> length (salt2 @ IV2 @ KGK) = 112 \<and>
               encrypt lib key IV (salt2 @ IV2 @ KGK) NO_PADDING = Inr EEK \<and> length EEK = 112 \<and>
               encrypt lib (makeKeyFromPassword lib KGK salt2) IV2
                 (if compress then qCompress lib P 9 else P) PKCS_PADDING = Inr baCipher \<and>
               length baCipher = 16 * (length (if compress then qCompress lib P 9 else P) div 16 + 1) \<and>
               env = [0x01] @ salt @ EEK @ baCipher \<and>
               length env = 145 + length baCipher"
      using ls2 li2 assms(3) EEK lEEK bc lbc by (intro exI [of _ EEK] exI [of _ baCipher]) simp
  }
  assume lib: "cipher_accepts lib \<and> kdf_lengths lib \<and> length key = 32 \<and> length IV = 16"
  have blocks: "length (salt2 @ IV2 @ KGK) mod 16 = 0" by (simp add: ls2 li2 assms(3))
  obtain EEK where EEK: "encrypt lib key IV (salt2 @ IV2 @ KGK) NO_PADDING = Inr EEK"
    using cipher_accepts_nopad [of lib key IV "salt2 @ IV2 @ KGK"] lib blocks by auto
  have lEEK: "length EEK = 112"
    using cipher_lengths_encrypt_nopad [OF assms(1) EEK] ls2 li2 assms(3) by simp
  have lb: "length (makeKeyFromPassword lib KGK salt2) = 32"
    using makeKeyFromPassword_length lib by blast
  obtain baCipher where bc: "encrypt lib (makeKeyFromPassword lib KGK salt2) IV2
      (if compress then qCompress lib P 9 else P) PKCS_PADDING = Inr baCipher"
    using cipher_accepts_pkcs [of lib "makeKeyFromPassword lib KGK salt2" IV2] lib lb li2 by auto
  from encode_returns [OF assms(3,4,5) EEK lEEK lb bc]
  show "\<exists>env. encode lib bm key IV salt KGK P compress ec r =
                (Returned env, set_errCode ec NoCryptError, r2)" by blast
qed

text \<open>The scenario of the specification: \<open>encode\<close> returns the envelope, and it has the
  layout.\<close>

theorem envelope_layout_witness:
  "encode test_library Release (replicate 32 51) (replicate 16 51) zero_salt ones_KGK hello_vault
     False (Some IntegrityError) 7 = (Returned vault_envelope, Some NoCryptError, 55) \<and>
   (\<exists>EEK baCipher.
     length vault_salt2 = 32 \<and> length vault_IV2 = 16 \<and>
     length (vault_salt2 @ vault_IV2 @ ones_KGK) = 112 \<and>
     encrypt test_library (replicate 32 51) (replicate 16 51)
       (vault_salt2 @ vault_IV2 @ ones_KGK) NO_PADDING = Inr EEK \<and>
     length EEK = 112 \<and>
     encrypt test_library (makeKeyFromPassword test_library ones_KGK vault_salt2)
       vault_IV2 hello_vault PKCS_PADDING = Inr baCipher \<and>
     length baCipher = 16 * (length hello_vault div 16 + 1) \<and>
     vault_envelope = [0x01] @ zero_salt @ EEK @ baCipher \<and>
     length vault_envelope = 145 + length baCipher)"
proof -
  note inst = envelope_layout [OF test_library_cipher_lengths test_lengths(2,1) test_randomBytes,
      of Release "replicate 32 51" "replicate 16 51" hello_vault False "Some IntegrityError"]
  have acc: "cipher_accepts test_library \<and> kdf_lengths test_library \<and>
      length (replicate 32 51 :: QByteArray) = 32 \<and> length (replicate 16 51 :: QByteArray) = 16"
    by (simp add: test_library_cipher_accepts test_library_kdf_lengths)
  from inst acc obtain env where
    e: "encode test_library Release (replicate 32 51) (replicate 16 51) zero_salt ones_KGK hello_vault
          False (Some IntegrityError) 7 = (Returned env, set_errCode (Some IntegrityError) NoCryptError, 55)"
    by blast
  with test_encode have env: "env = vault_envelope" by simp
  from inst e [unfolded env] have "\<exists>EEK baCipher.
     length vault_salt2 = 32 \<and> length vault_IV2 = 16 \<and>
     length (vault_salt2 @ vault_IV2 @ ones_KGK) = 112 \<and>
     encrypt test_library (replicate 32 51) (replicate 16 51)
       (vault_salt2 @ vault_IV2 @ ones_KGK) NO_PADDING = Inr EEK \<and>
     length EEK = 112 \<and>
     encrypt test_library (makeKeyFromPassword test_library ones_KGK vault_salt2)
       vault_IV2 (if False then qCompress test_library hello_vault 9 else hello_vault) PKCS_PADDING = Inr baCipher \<and>
     length baCipher = 16 * (length (if False then qCompress test_library hello_vault 9 else hello_vault) div 16 + 1) \<and>
     vault_envelope = [0x01] @ zero_salt @ EEK @ baCipher \<and>
     length vault_envelope = 145 + length baCipher"
    by blast
  with test_encode show ?thesis by simp
qed

text \<open>Against C4 as the specification states it, for every input that \<open>encode\<close> accepts: with
  a salt of 31 bytes \<open>encode\<close> returns, in a debug build too, an envelope of 160 bytes
  around a 16-byte ciphertext; and with a KGK of 48 bytes a release build returns an
  envelope whose EEK has 96 bytes.\<close>

theorem unchecked_lengths_change_layout:
  "encode test_library Debug (replicate 32 51) (replicate 16 51) (replicate 31 0) ones_KGK hello_vault
     False (Some IntegrityError) 7 =
     (Returned ([0x01] @ replicate 31 0 @ vault_EEK @ vault_cipher_payload), Some NoCryptError, 55) \<and>
   length ([0x01] @ replicate 31 0 @ vault_EEK @ vault_cipher_payload) = 160 \<and>
   145 + length vault_cipher_payload = 161 \<and>
   encode test_library Release (replicate 32 51) (replicate 16 51) zero_salt (replicate 48 1)
     hello_vault False (Some IntegrityError) 7 =
     (Returned ([0x01] @ zero_salt @ take 96 vault_EEK @ vault_cipher_payload), Some NoCryptError, 55) \<and>
   length (take 96 vault_EEK) = 96"
  by code_simp


subsection \<open>C5: the parameters of the two key derivations\<close>

text \<open>
  Claim C5. The derivation from the master password runs SHA-384 with 32768 iterations;
  of its 48 bytes the first 32 are the outer key and the remaining 16 the outer IV. The
  derivation from the KGK runs SHA-256 with 1024 iterations and yields the 32-byte
  blobKey. The lengths are those of the digests, which is what the specification says of
  the class \<open>PBKDF2\<close>.
\<close>

theorem key_derivation_parameters:
  assumes "kdf_lengths lib"
  shows "length (pbkdf2_hmac lib Sha384 M salt 32768) = 48 \<and>
         makeKeyAndIVFromPassword lib M salt =
           (take 32 (pbkdf2_hmac lib Sha384 M salt 32768), drop 32 (pbkdf2_hmac lib Sha384 M salt 32768)) \<and>
         length (fst (makeKeyAndIVFromPassword lib M salt)) = 32 \<and>
         length (snd (makeKeyAndIVFromPassword lib M salt)) = 16 \<and>
         makeKeyFromPassword lib KGK salt2 = pbkdf2_hmac lib Sha256 KGK salt2 1024 \<and>
         length (makeKeyFromPassword lib KGK salt2) = 32"
  using assms by (simp add: makeKeyAndIVFromPassword_eq makeKeyFromPassword_eq kdf_lengths_def)

theorem key_derivation_parameters_witness:
  "length (pbkdf2_hmac test_library Sha384 correct_horse zero_salt 32768) = 48 \<and>
   makeKeyAndIVFromPassword test_library correct_horse zero_salt =
     (take 32 (pbkdf2_hmac test_library Sha384 correct_horse zero_salt 32768),
      drop 32 (pbkdf2_hmac test_library Sha384 correct_horse zero_salt 32768)) \<and>
   length (fst (makeKeyAndIVFromPassword test_library correct_horse zero_salt)) = 32 \<and>
   length (snd (makeKeyAndIVFromPassword test_library correct_horse zero_salt)) = 16 \<and>
   makeKeyFromPassword test_library ones_KGK (vault_salt2) =
     pbkdf2_hmac test_library Sha256 ones_KGK (vault_salt2) 1024 \<and>
   length (makeKeyFromPassword test_library ones_KGK (vault_salt2)) = 32"
  using key_derivation_parameters [OF test_library_kdf_lengths] by blast

subsection \<open>C9: the error code is only ever \<open>NoCryptError\<close>\<close>

text \<open>
  Claim C9. Whenever \<open>encode\<close> or \<open>decode\<close> returns and \<open>errCode\<close> is not null, \<open>*errCode\<close> is
  \<open>NoCryptError\<close>. More: after \<open>decode\<close> it is \<open>NoCryptError\<close> however the call ends, after
  \<open>encode\<close> it is \<open>NoCryptError\<close> or what it was before the call (when the first assertion
  fails), and a null \<open>errCode\<close> stays null. No other code is ever assigned.
\<close>

theorem errCode_only_NoCryptError:
  "(encode lib bm key IV salt KGK P compress (Some c) r = (Returned env, ec', r') \<longrightarrow>
      ec' = Some NoCryptError) \<and>
   (decode lib bm' M baCipher u K (Some c') = (Returned plain, K', ec'') \<longrightarrow>
      ec'' = Some NoCryptError) \<and>
   (fst (snd (encode lib bm key IV salt KGK P compress (Some c) r)) = Some c \<or>
    fst (snd (encode lib bm key IV salt KGK P compress (Some c) r)) = Some NoCryptError) \<and>
   snd (snd (decode lib bm' M baCipher u K (Some c'))) = Some NoCryptError \<and>
   fst (snd (encode lib bm key IV salt KGK P compress None r)) = None \<and>
   snd (snd (decode lib bm' M baCipher u K None)) = None"
proof -
  have "ec' = Some NoCryptError"
    if "encode lib bm key IV salt KGK P compress (Some c) r = (Returned env, ec', r')"
  proof -
    obtain salt2 r1 where s2: "randomBytes lib SaltSize r = (salt2, r1)"
      by (cases "randomBytes lib SaltSize r")
    obtain IV2 r2 where i2: "randomBytes lib AESBlockSize r1 = (IV2, r2)"
      by (cases "randomBytes lib AESBlockSize r1")
    from encode_Returned_D [OF that s2 i2] show ?thesis by (auto simp add: set_errCode_def)
  qed
  moreover have "ec'' = Some NoCryptError"
    if "decode lib bm' M baCipher u K (Some c') = (Returned plain, K', ec'')"
    using decode_errCode [of lib bm' M baCipher u K "Some c'"] that by (simp add: set_errCode_def)
  ultimately show ?thesis
    by (simp add: encode_errCode decode_errCode set_errCode_def)
qed

theorem errCode_only_NoCryptError_witness:
  "fst (snd (encode test_library Release (replicate 32 51) (replicate 16 51) zero_salt ones_KGK
       hello_vault False (Some IntegrityError) 7)) = Some NoCryptError \<and>
   snd (snd (decode test_library Debug correct_horse vault_envelope False [] (Some FormatError))) =
     Some NoCryptError"
proof -
  note inst = errCode_only_NoCryptError [where lib = test_library and bm = Release
      and key = "replicate 32 51" and IV = "replicate 16 51" and salt = zero_salt and KGK = ones_KGK
      and P = hello_vault and compress = False and c = IntegrityError and r = 7
      and env = vault_envelope and ec' = "Some NoCryptError" and r' = 55 and bm' = Debug
      and c' = FormatError
      and M = correct_horse and baCipher = vault_envelope and u = False and K = "[]"]
  from inst test_encode have "Some NoCryptError = Some NoCryptError" by blast
  with inst show ?thesis using test_encode by simp
qed

subsection \<open>C2: an unknown format flag\<close>

text \<open>
  Claim C2, as the code has it. Let the first byte of the input differ from 0x01. In a
  build with \<open>Q_ASSERT_X\<close> active, \<open>decode\<close> aborts at the assertion on the format flag,
  whatever the remaining bytes are, with the KGK parameter untouched. In a build with
  \<open>QT_NO_DEBUG\<close> the format flag is ignored: \<open>decode\<close> does what it does on the same bytes
  behind the flag 0x01. In no build does \<open>*errCode\<close> become \<open>FormatError\<close>.
\<close>

theorem format_flag_assertion:
  assumes "b \<noteq> AES256EncryptedMasterkeyFormat"
  shows "decode lib Debug M (b # rest) u K ec =
           (AssertFailed ''Crypter::decode()'' ''formatFlag must equal AES256EncryptedMasterkeyFormat'',
            K, set_errCode ec NoCryptError) \<and>
         decode lib Release M (b # rest) u K ec =
           decode lib Release M (AES256EncryptedMasterkeyFormat # rest) u K ec \<and>
         snd (snd (decode lib bm M (b # rest) u K ec)) \<noteq> Some FormatError"
  using decode_format_assert [OF assms, of lib M rest u K ec]
    decode_release_ignores_format [of lib M b rest u K ec AES256EncryptedMasterkeyFormat]
  by (simp add: decode_errCode set_errCode_def split: option.splits)

text \<open>The scenario's envelope with the flag 0x02 in place of 0x01.\<close>

theorem format_flag_assertion_witness:
  "(2 :: byte) \<noteq> AES256EncryptedMasterkeyFormat \<and>
   decode test_library Debug correct_horse (2 # tl vault_envelope) False [] (Some IntegrityError) =
     (AssertFailed ''Crypter::decode()'' ''formatFlag must equal AES256EncryptedMasterkeyFormat'',
      [], Some NoCryptError) \<and>
   decode test_library Release correct_horse (2 # tl vault_envelope) False [] (Some IntegrityError) =
     decode test_library Release correct_horse (AES256EncryptedMasterkeyFormat # tl vault_envelope)
       False [] (Some IntegrityError) \<and>
   snd (snd (decode test_library Debug correct_horse (2 # tl vault_envelope) False []
     (Some IntegrityError))) \<noteq> Some FormatError"
proof -
  have ne: "(2 :: byte) \<noteq> AES256EncryptedMasterkeyFormat"
    by (simp add: AES256EncryptedMasterkeyFormat_def)
  show ?thesis
    using ne format_flag_assertion [OF ne, of test_library correct_horse "tl vault_envelope" False
        "[]" "Some IntegrityError" Debug]
    by (simp add: set_errCode_def)
qed

text \<open>Against C2 as the specification states it: in a release build the envelope with the
  flag 0x02 is decoded like the original one, and the payload is returned.\<close>

theorem wrong_format_accepted_in_release:
  "decode test_library Release correct_horse (2 # tl vault_envelope) False [] (Some IntegrityError) =
     (Returned hello_vault, ones_KGK, Some NoCryptError)"
  by code_simp

subsection \<open>C3: a wrong master password\<close>

text \<open>
  Claim C3, as the code has it. Take an input of at least 145 bytes with the flag 0x01
  and any master password, right or wrong, and let the cipher keep lengths. When the
  decryption of the EEK returns, it returns 112 bytes, whatever the key: no check
  tells a wrong password here. \<open>decode\<close> then writes bytes 48 to 111 of that block to the
  KGK parameter and ends as the PKCS-padded decryption of the payload under the key
  derived from them ends: if the library throws, its exception leaves \<open>decode\<close>; if it
  does not, the decrypted bytes are returned as the payload. \<open>*errCode\<close> is never
  \<open>IntegrityError\<close>.
\<close>

theorem wrong_or_right_password:
  assumes "145 \<le> length env" and "hd env = AES256EncryptedMasterkeyFormat"
    and "cipher_lengths lib"
    and "makeKeyAndIVFromPassword lib M (take 32 (drop 1 env)) = (key, IV)"
    and "decrypt lib key IV (take 112 (drop 33 env)) NO_PADDING = Inr baKGK"
  shows "length baKGK = 112 \<and>
         decode lib bm M env u K ec =
           (case decrypt lib (makeKeyFromPassword lib (drop 48 baKGK) (take 32 baKGK))
                   (take 16 (drop 32 baKGK)) (drop 145 env) PKCS_PADDING of
              Inl e \<Rightarrow> (Threw e, drop 48 baKGK, set_errCode ec NoCryptError)
            | Inr plain \<Rightarrow>
                (Returned (if u then (case qUncompress lib plain of None \<Rightarrow> [] | Some d \<Rightarrow> d)
                           else plain),
                 drop 48 baKGK, set_errCode ec NoCryptError)) \<and>
         snd (snd (decode lib bm M env u K ec)) \<noteq> Some IntegrityError"
proof -
  have len: "length baKGK = 112"
    using cipher_lengths_decrypt_nopad [OF assms(3,5)] assms(1) by simp
  have flag: "\<not> Q_ASSERT_X_fails bm (hd env = AES256EncryptedMasterkeyFormat)"
    by (simp add: assms(2) Q_ASSERT_X_holds)
  have "decode lib bm M env u K ec =
          decode_inner lib bm key IV (take 112 (drop 33 env)) (drop 145 env) u K
            (set_errCode ec NoCryptError)"
    unfolding decode_long [OF assms(1) flag] assms(4) by simp
  then have dec: "decode lib bm M env u K ec =
           (case decrypt lib (makeKeyFromPassword lib (drop 48 baKGK) (take 32 baKGK))
                   (take 16 (drop 32 baKGK)) (drop 145 env) PKCS_PADDING of
              Inl e \<Rightarrow> (Threw e, drop 48 baKGK, set_errCode ec NoCryptError)
            | Inr plain \<Rightarrow>
                (Returned (if u then (case qUncompress lib plain of None \<Rightarrow> [] | Some d \<Rightarrow> d)
                           else plain),
                 drop 48 baKGK, set_errCode ec NoCryptError))"
    by (simp only: decode_inner_sized [OF assms(5) len])
  have "snd (snd (decode lib bm M env u K ec)) \<noteq> Some IntegrityError"
    by (simp add: decode_errCode set_errCode_def split: option.splits)
  with len dec show ?thesis by (intro conjI)
qed

text \<open>The scenario's envelope, decoded with \<open>wrong horse\<close>.\<close>

theorem wrong_or_right_password_witness:
  "length garbled_inner_block = 112 \<and>
   decode test_library Release wrong_horse vault_envelope False (replicate 64 0) (Some FormatError) =
     (case decrypt test_library
             (makeKeyFromPassword test_library (drop 48 garbled_inner_block) (take 32 garbled_inner_block))
             (take 16 (drop 32 garbled_inner_block)) (drop 145 vault_envelope) PKCS_PADDING of
        Inl e \<Rightarrow> (Threw e, drop 48 garbled_inner_block, Some NoCryptError)
      | Inr plain \<Rightarrow> (Returned plain, drop 48 garbled_inner_block, Some NoCryptError)) \<and>
   snd (snd (decode test_library Release wrong_horse vault_envelope False (replicate 64 0)
     (Some FormatError))) \<noteq> Some IntegrityError"
proof -
  note inst = wrong_or_right_password [OF test_lengths(3,4) test_library_cipher_lengths test_wrong_keys
      test_wrong_inner, of Release False "replicate 64 0" "Some FormatError"]
  have ec: "set_errCode (Some FormatError) NoCryptError = Some NoCryptError"
    by (simp add: set_errCode_def)
  from inst show ?thesis unfolding ec if_False by (intro conjI) blast+
qed

text \<open>Against C3 as the specification states it: decoding the scenario's envelope with
  \<open>wrong horse\<close> ends with an exception of the library and the error code \<open>NoCryptError\<close>,
  after the KGK parameter has been overwritten with the bytes of the wrongly decrypted
  block.\<close>

theorem wrong_password_throws_library_exception:
  "decode test_library Release wrong_horse vault_envelope False (replicate 64 0) (Some FormatError) =
     (Threw InvalidCiphertext, garbled_KGK, Some NoCryptError)"
  by code_simp

subsection \<open>C6: the length of the decrypted inner block\<close>



subsection \<open>C7: a failed decompression\<close>

text \<open>
  Claim C7 asks for an \<open>IntegrityError\<close> when the decompression fails. The code at the
  scenario's envelope, whose payload was not compressed: \<open>hello vault\<close> does not
  decompress, and \<open>decode\<close> with the flag set returns an empty payload as a success, with
  the KGK written and the error code \<open>NoCryptError\<close>.
\<close>

theorem failed_decompression_returns_empty:
  "qUncompress test_library hello_vault = None \<and>
   decode test_library Debug correct_horse vault_envelope False [] (Some FormatError) =
     (Returned hello_vault, ones_KGK, Some NoCryptError) \<and>
   decode test_library Debug correct_horse vault_envelope True [] (Some FormatError) =
     (Returned [], ones_KGK, Some NoCryptError)"
  by code_simp


subsection \<open>C8: a KGK of the wrong length\<close>

text \<open>
  Claim C8, as the code has it. In a build with \<open>Q_ASSERT_X\<close> active, \<open>encode\<close> with a KGK
  whose length is not 64 aborts at its first statement, the assertion on \<open>KGK.size()\<close>:
  the random device is in the state it was in, \<open>*errCode\<close> is what it was, and no library
  was called (the outcome does not depend on the library).
\<close>

theorem KGK_size_assertion:
  assumes "length KGK \<noteq> 64"
  shows "encode lib Debug key IV salt KGK P compress ec r =
           (AssertFailed ''Crypter::encode()'' ''KGK.size() must be KGKSize'', ec, r)"
  using assms by (simp add: encode_def Q_ASSERT_X_fails_def KGKSize_def)

text \<open>A KGK of 48 bytes in a debug build.\<close>

theorem KGK_size_assertion_witness:
  "length (replicate 48 1 :: QByteArray) \<noteq> 64 \<and>
   encode test_library Debug (replicate 32 51) (replicate 16 51) zero_salt (replicate 48 1)
     hello_vault False (Some IntegrityError) 7 =
     (AssertFailed ''Crypter::encode()'' ''KGK.size() must be KGKSize'', Some IntegrityError, 7)"
proof -
  have ne: "length (replicate 48 1 :: QByteArray) \<noteq> 64" by simp
  show ?thesis
    using ne KGK_size_assertion [OF ne, of test_library "replicate 32 51" "replicate 16 51" zero_salt
        hello_vault False "Some IntegrityError" 7]
    by simp
qed

text \<open>Against C8 as the specification states it: in a release build \<open>encode\<close> accepts a KGK
  of 48 bytes, draws 48 values from the random device and returns an envelope.\<close>

theorem short_KGK_encoded_in_release:
  "encode test_library Release (replicate 32 51) (replicate 16 51) zero_salt (replicate 48 1)
     hello_vault False (Some IntegrityError) 7 =
     (Returned short_KGK_envelope, Some NoCryptError, 55)"
  by code_simp

subsection \<open>C10: reads outside the input\<close>

text \<open>
  Claim C10, as the code has it. \<open>decode\<close> reads the format byte, the salt and the EEK
  without checking the length of its input. On an input of at least 145 bytes no read
  goes past the end of the input. On a shorter input a read goes past its end, unless
  an assertion stops a debug build first: on the empty input the assertion inside
  \<open>QByteArray::at\<close>, on an input whose first byte is not 0x01 the assertion on the format
  flag. Where a read does go past the end: on an input of 144 bytes it takes the
  terminating zero byte and \<open>decode\<close> does what it does on the input with a zero byte
  appended; on a shorter input it reads beyond the terminating byte.
\<close>

theorem input_reads_in_bounds:
  "(145 \<le> length env \<longrightarrow>
      \<not> snd (decode_reads lib bm M env u K ec) \<and>
      fst (decode lib bm M env u K ec) \<noteq> OutOfBounds ''baCipher'') \<and>
   (length env < 145 \<longrightarrow> bm = Release \<or> (env \<noteq> [] \<and> hd env = AES256EncryptedMasterkeyFormat) \<longrightarrow>
      snd (decode_reads lib bm M env u K ec)) \<and>
   (length env < 144 \<longrightarrow> bm = Release \<or> (env \<noteq> [] \<and> hd env = AES256EncryptedMasterkeyFormat) \<longrightarrow>
      decode lib bm M env u K ec = (OutOfBounds ''baCipher'', K, set_errCode ec NoCryptError)) \<and>
   (length env = 144 \<longrightarrow> bm = Release \<or> hd env = AES256EncryptedMasterkeyFormat \<longrightarrow>
      decode lib bm M env u K ec = decode lib bm M (env @ [0]) u K ec) \<and>
   (bm = Debug \<and> env = [] \<longrightarrow>
      decode_reads lib bm M env u K ec =
        ((AssertFailed ''QByteArray::at()'' ''uint(i) < uint(size())'',
          K, set_errCode ec NoCryptError), False)) \<and>
   (bm = Debug \<and> env \<noteq> [] \<and> hd env \<noteq> AES256EncryptedMasterkeyFormat \<longrightarrow>
      decode_reads lib bm M env u K ec =
        ((AssertFailed ''Crypter::decode()'' ''formatFlag must equal AES256EncryptedMasterkeyFormat'',
          K, set_errCode ec NoCryptError), False))"
proof (intro conjI impI)
  assume long: "145 \<le> length env"
  show "\<not> snd (decode_reads lib bm M env u K ec)"
  proof (cases "Q_ASSERT_X_fails bm (hd env = AES256EncryptedMasterkeyFormat)")
    case True
    from long obtain b rest where "env = b # rest" by (cases env) auto
    with True show ?thesis
      by (simp add: decode_reads_def QByteArray_at_def Q_ASSERT_X_fails_def)
  next
    case False
    show ?thesis
      unfolding decode_reads_long [OF long False] by (simp split: prod.splits)
  qed
  show "fst (decode lib bm M env u K ec) \<noteq> OutOfBounds ''baCipher''"
  proof (cases "Q_ASSERT_X_fails bm (hd env = AES256EncryptedMasterkeyFormat)")
    case True
    from long obtain b rest where "env = b # rest" by (cases env) auto
    with True show ?thesis
      by (simp add: decode_def decode_reads_def QByteArray_at_def Q_ASSERT_X_fails_def)
  next
    case False
    show ?thesis
      unfolding decode_long [OF long False]
      by (simp add: decode_inner_not_baCipher split: prod.splits)
  qed
next
  assume short: "length env < 145"
    and ok: "bm = Release \<or> (env \<noteq> [] \<and> hd env = AES256EncryptedMasterkeyFormat)"
  from ok have "\<not> Q_ASSERT_X_fails bm (0 < length env)"
    and "\<not> Q_ASSERT_X_fails bm (hd env = AES256EncryptedMasterkeyFormat)"
    by (auto simp add: Q_ASSERT_X_fails_def)
  from decode_reads_short(1) [OF short this] show "snd (decode_reads lib bm M env u K ec)" .
next
  assume short: "length env < 144"
    and ok: "bm = Release \<or> (env \<noteq> [] \<and> hd env = AES256EncryptedMasterkeyFormat)"
  from ok have a: "\<not> Q_ASSERT_X_fails bm (0 < length env)"
    and b: "\<not> Q_ASSERT_X_fails bm (hd env = AES256EncryptedMasterkeyFormat)"
    by (auto simp add: Q_ASSERT_X_fails_def)
  from short have "length env < 145" by simp
  from decode_reads_short(2) [OF this a b short]
  show "decode lib bm M env u K ec = (OutOfBounds ''baCipher'', K, set_errCode ec NoCryptError)"
    by (simp add: decode_def)
next
  assume len: "length env = 144" and ok: "bm = Release \<or> hd env = AES256EncryptedMasterkeyFormat"
  from ok have "\<not> Q_ASSERT_X_fails bm (hd env = AES256EncryptedMasterkeyFormat)"
    by (auto simp add: Q_ASSERT_X_fails_def)
  from decode_144 [OF len this]
  show "decode lib bm M env u K ec = decode lib bm M (env @ [0]) u K ec" .
next
  assume "bm = Debug \<and> env = []"
  then show "decode_reads lib bm M env u K ec =
        ((AssertFailed ''QByteArray::at()'' ''uint(i) < uint(size())'',
          K, set_errCode ec NoCryptError), False)"
    by (simp add: decode_reads_def Q_ASSERT_X_fails_def)
next
  assume a: "bm = Debug \<and> env \<noteq> [] \<and> hd env \<noteq> AES256EncryptedMasterkeyFormat"
  then obtain b rest where env: "env = b # rest" by (cases env) auto
  with a have "b \<noteq> AES256EncryptedMasterkeyFormat" by simp
  from decode_reads_format_assert [OF this] a env
  show "decode_reads lib bm M env u K ec =
        ((AssertFailed ''Crypter::decode()'' ''formatFlag must equal AES256EncryptedMasterkeyFormat'',
          K, set_errCode ec NoCryptError), False)" by simp
qed

text \<open>The scenario's envelope, the same without its last byte, and the empty input.\<close>

theorem input_reads_in_bounds_witness:
  "145 \<le> length vault_envelope \<and>
   \<not> snd (decode_reads test_library Debug correct_horse vault_envelope False [] None) \<and>
   length (take 144 vault_envelope) = 144 \<and>
   snd (decode_reads test_library Debug correct_horse (take 144 vault_envelope) False [] None) \<and>
   decode test_library Debug correct_horse (take 144 vault_envelope) False [] None =
     decode test_library Debug correct_horse (take 144 vault_envelope @ [0]) False [] None \<and>
   decode test_library Debug correct_horse (take 144 vault_envelope) False [] None =
     (Threw InvalidCiphertext, replicate 63 1 @ [20], None) \<and>
   snd (decode_reads test_library Release correct_horse [] False [] None) \<and>
   decode test_library Release correct_horse [] False [] None = (OutOfBounds ''baCipher'', [], None) \<and>
   decode_reads test_library Debug correct_horse [] False [] None =
     ((AssertFailed ''QByteArray::at()'' ''uint(i) < uint(size())'', [], None), False)"
proof -
  have a: "145 \<le> length vault_envelope" by (rule test_lengths(3))
  have b: "length (take 144 vault_envelope) = 144" using a by simp
  have c: "take 144 vault_envelope \<noteq> [] \<and> hd (take 144 vault_envelope) = AES256EncryptedMasterkeyFormat"
    by (simp add: vault_envelope_def AES256EncryptedMasterkeyFormat_def)
  show ?thesis
    using a b c test_decode_144
      input_reads_in_bounds [of vault_envelope test_library Debug correct_horse False "[]" None]
      input_reads_in_bounds [of "take 144 vault_envelope" test_library Debug correct_horse False "[]" None]
      input_reads_in_bounds [of "[]" test_library Release correct_horse False "[]" None]
      input_reads_in_bounds [of "[]" test_library Debug correct_horse False "[]" None]
    by (simp add: set_errCode_def)
qed

text \<open>Against C10 as the specification states it: on the one-byte input 0x02 and on the
  empty input a debug build stops at an assertion, and no read has gone past the end
  of the input.\<close>

theorem short_input_aborts_before_reading:
  "decode_reads test_library Debug correct_horse [2] False [] None =
     ((AssertFailed ''Crypter::decode()'' ''formatFlag must equal AES256EncryptedMasterkeyFormat'',
       [], None), False) \<and>
   decode_reads test_library Debug correct_horse [] False [] None =
     ((AssertFailed ''QByteArray::at()'' ''uint(i) < uint(size())'', [], None), False)"
  by code_simp

end
